theory Spec2Isabelle
  imports Main "HOL-Library.Sublist"
begin

section \<open>Strings of the source language\<close>

text \<open>
  A TypeScript string is a sequence of UTF-16 code units. The model reads a
  \<^typ>\<open>string\<close> as such a sequence with every code unit in the range
  U+0000 .. U+00FF (one \<^typ>\<open>char\<close> per code unit), which covers the
  seed articles. On that range the three built-ins the
  search dialog calls are as follows.
\<close>

text \<open>
  \<^verbatim>\<open>String.prototype.toLowerCase\<close>: the letters A-Z, and the Latin-1 capitals
  U+00C0 .. U+00DE other than the multiplication sign U+00D7, move up by 32;
  every other code unit of the range is its own lower case.
\<close>

definition toLowerCase_char :: "char \<Rightarrow> char" where
  "toLowerCase_char c =
     (let n = (of_char c :: nat)
      in if (65 \<le> n \<and> n \<le> 90) \<or> (192 \<le> n \<and> n \<le> 214) \<or> (216 \<le> n \<and> n \<le> 222)
         then char_of (n + 32) else c)"

definition toLowerCase :: "string \<Rightarrow> string" where
  "toLowerCase s = map toLowerCase_char s"

text \<open>
  \<^verbatim>\<open>String.prototype.includes\<close>: does the argument occur at some position of
  the receiver? The empty string occurs in every string.
\<close>

fun includes_str :: "string \<Rightarrow> string \<Rightarrow> bool" where
  "includes_str [] q = (q = [])"
| "includes_str (c # s) q = (prefix q (c # s) \<or> includes_str s q)"

text \<open>
  \<^verbatim>\<open>String.prototype.trim\<close> removes white space and line terminators from
  both ends: tab, line feed, vertical tab, form feed, carriage return, space
  and the no-break space U+00A0 are the ones in the range.
\<close>

definition isWhiteSpace :: "char \<Rightarrow> bool" where
  "isWhiteSpace c =
     (let n = (of_char c :: nat) in (9 \<le> n \<and> n \<le> 13) \<or> n = 32 \<or> n = 160)"

definition trim :: "string \<Rightarrow> string" where
  "trim s = rev (dropWhile isWhiteSpace (rev (dropWhile isWhiteSpace s)))"

text \<open>A string in a condition is true exactly when it is not empty.\<close>

definition truthy_str :: "string \<Rightarrow> bool" where
  "truthy_str s = (s \<noteq> [])"


section \<open>Articles\<close>

text \<open>
  \<^verbatim>\<open>interface Article\<close> of \<^verbatim>\<open>App.tsx\<close>. The field \<^verbatim>\<open>id\<close> is \<open>id'\<close>
  here, since \<^const>\<open>id\<close> is the identity function of HOL.
\<close>

record Article =
  id' :: string
  title :: string
  excerpt :: string
  content :: string
  imageUrl :: string
  category :: string
  author :: string
  publishedAt :: string
  readTime :: string
  isBookmarked :: bool


text \<open>
  \<^verbatim>\<open>mockArticles\<close> of \<^verbatim>\<open>App.tsx\<close>, the six articles the application
  starts with. A long literal is written as a concatenation of pieces.
\<close>

definition mockContent1 :: string where
  "mockContent1 =
     ''The South African government has announced sweeping economic policy '' @
     ''changes that are set to take effect in early 2025. These reforms, '' @
     ''described as the most significant in a decade, aim to stimulate growth '' @
     ''and attract foreign investment.\<newline>\<newline>Key changes include new tax incentives '' @
     ''for businesses, streamlined regulatory processes, and enhanced support '' @
     ''for small and medium enterprises. The Minister of Finance emphasized '' @
     ''that these measures are designed to create jobs and boost economic '' @
     ''recovery.\<newline>\<newline>The private sector has responded positively to the '' @
     ''announcements, with several major corporations already indicating plans '' @
     ''to expand their operations. Economic analysts predict that these '' @
     ''changes could lead to a significant increase in GDP growth over the '' @
     ''next two years.\<newline>\<newline>However, some critics argue that the reforms may not '' @
     ''address fundamental structural issues in the economy. They call for '' @
     ''more comprehensive changes to education, infrastructure, and governance '' @
     ''systems.\<newline>\<newline>The implementation timeline for these policies has been set '' @
     ''for March 2025, with a phased approach to ensure smooth transition for '' @
     ''all stakeholders.''"

definition mockArticle1 :: Article where
  "mockArticle1 = \<lparr>
     id' = ''1'',
     title = ''Breaking: Major Economic Policy Changes Announced for 2025'',
     excerpt =
       (''The government has unveiled comprehensive economic reforms that will '' @
       ''reshape the business landscape across South Africa.''),
     content = mockContent1,
     imageUrl =
       (''https://images.unsplash.com/photo-1585829365295-ab7cd400c167?crop=entrop'' @
       ''y&cs=tinysrgb&fit=max&fm=jpg&ixid=M3w3Nzg4Nzd8MHwxfHNlYXJjaHwxfHxicmVha2'' @
       ''luZyUyMG5ld3N8ZW58MXx8fHwxNzU3NjM1MjgxfDA&ixlib=rb-4.1.0&q=80&w=1080&utm'' @
       ''_source=figma&utm_medium=referral''),
     category = ''breaking'',
     author = ''Sarah Johnson'',
     publishedAt = ''2024-12-18T08:30:00Z'',
     readTime = ''4 min read'',
     isBookmarked = False \<rparr>"

definition mockContent2 :: string where
  "mockContent2 =
     ''Business leaders from across various sectors gathered at the annual '' @
     ''Economic Forum to discuss recovery strategies and future opportunities '' @
     ''in the post-pandemic era.\<newline>\<newline>The discussions centered around digital '' @
     ''transformation, supply chain resilience, and the changing nature of '' @
     ''work. Many companies have accelerated their digital initiatives, with '' @
     ''some reporting productivity gains of up to 30%.\<newline>\<newline>Key themes that '' @
     ''emerged include the importance of agile business models, investment in '' @
     ''employee wellbeing, and sustainable business practices. Several '' @
     ''speakers highlighted the need for businesses to be more responsive to '' @
     ''changing consumer preferences.\<newline>\<newline>The forum also addressed challenges '' @
     ''such as skills shortages, rising operational costs, and regulatory '' @
     ''uncertainty. Participants shared practical solutions and collaborative '' @
     ''approaches to overcome these obstacles.\<newline>\<newline>Looking ahead, there was '' @
     ''optimism about the potential for innovation and growth, particularly in '' @
     ''technology, renewable energy, and healthcare sectors.''"

definition mockArticle2 :: Article where
  "mockArticle2 = \<lparr>
     id' = ''2'',
     title = ''Local Business Leaders Discuss Post-Pandemic Recovery Strategies'',
     excerpt =
       (''Industry executives share insights on navigating the new business '' @
       ''environment and opportunities for growth.''),
     content = mockContent2,
     imageUrl =
       (''https://images.unsplash.com/photo-1606836591695-4d58a73eba1e?crop=entrop'' @
       ''y&cs=tinysrgb&fit=max&fm=jpg&ixid=M3w3Nzg4Nzd8MHwxfHNlYXJjaHwxfHxidXNpbm'' @
       ''VzcyUyMG1lZXRpbmd8ZW58MXx8fHwxNzU3NjYxMTk0fDA&ixlib=rb-4.1.0&q=80&w=1080'' @
       ''&utm_source=figma&utm_medium=referral''),
     category = ''business'',
     author = ''Michael Chen'',
     publishedAt = ''2024-12-18T06:15:00Z'',
     readTime = ''6 min read'',
     isBookmarked = True \<rparr>"

definition mockContent3 :: string where
  "mockContent3 =
     ''The national rugby team has announced its final squad for the upcoming '' @
     ''international championships, with several surprise inclusions that have '' @
     ''excited fans and pundits alike.\<newline>\<newline>Coach Williams emphasized the team's '' @
     ''focus on youth and experience, selecting a balanced squad that combines '' @
     ''veteran leadership with emerging talent. The selection process was '' @
     ''described as the most competitive in recent years.\<newline>\<newline>Training camps have '' @
     ''been intensified, with players working on specific game strategies and '' @
     ''fitness protocols. The coaching staff has implemented new tactical '' @
     ''approaches based on analysis of recent international matches.\<newline>\<newline>Several '' @
     ''key players have returned from injury, adding depth to the squad. The '' @
     ''captain expressed confidence in the team's preparation and their '' @
     ''ability to compete at the highest level.\<newline>\<newline>Fans are showing tremendous '' @
     ''support, with ticket sales for home matches exceeding expectations. The '' @
     ''team's preparation has been closely followed by media and supporters '' @
     ''who are optimistic about their chances.''"

definition mockArticle3 :: Article where
  "mockArticle3 = \<lparr>
     id' = ''3'',
     title = ''Rugby World Cup Preparations Intensify as Team Finalizes Squad'',
     excerpt =
       (''The national rugby team is making final preparations with key player '' @
       ''selections announced ahead of the championship.''),
     content = mockContent3,
     imageUrl =
       (''https://images.unsplash.com/photo-1565483276060-e6730c0cc6a1?crop=entrop'' @
       ''y&cs=tinysrgb&fit=max&fm=jpg&ixid=M3w3Nzg4Nzd8MHwxfHNlYXJjaHwxfHxzcG9ydH'' @
       ''MlMjBzdGFkaXVtfGVufDF8fHx8MTc1NzYxNjUxOHww&ixlib=rb-4.1.0&q=80&w=1080&ut'' @
       ''m_source=figma&utm_medium=referral''),
     category = ''sport'',
     author = ''David Thompson'',
     publishedAt = ''2024-12-17T14:20:00Z'',
     readTime = ''3 min read'',
     isBookmarked = False \<rparr>"

definition mockContent4 :: string where
  "mockContent4 =
     ''The ongoing parliamentary debate on education reform has captured '' @
     ''public attention, with proposed changes affecting curriculum, teacher '' @
     ''training, and school infrastructure investment.\<newline>\<newline>The Education Minister '' @
     ''outlined a comprehensive plan to modernize the education system, '' @
     ''including increased digital literacy programs, revised teacher '' @
     ''qualification requirements, and substantial infrastructure '' @
     ''improvements.\<newline>\<newline>Opposition parties have raised concerns about '' @
     ''implementation timelines and budget allocations, calling for more '' @
     ''detailed financial planning and phased rollouts. They argue that '' @
     ''previous reforms lacked adequate consultation with educators and '' @
     ''communities.\<newline>\<newline>Education unions have organized consultations to gather '' @
     ''input from teachers and school administrators. Their preliminary '' @
     ''feedback highlights the need for adequate training and resources to '' @
     ''support any new initiatives.\<newline>\<newline>Parents and community organizations have '' @
     ''also voiced their opinions, with many supporting the direction of '' @
     ''reforms while expressing concerns about disruption to current students' '' @
     ''education.\<newline>\<newline>The debate is expected to continue for several weeks, with '' @
     ''committee hearings scheduled to examine specific aspects of the '' @
     ''proposed reforms in detail.''"

definition mockArticle4 :: Article where
  "mockArticle4 = \<lparr>
     id' = ''4'',
     title = ''Parliamentary Debate on Education Reform Draws Public Interest'',
     excerpt =
       (''Proposed changes to the education system spark heated discussions among '' @
       ''politicians and education experts.''),
     content = mockContent4,
     imageUrl =
       (''https://images.unsplash.com/photo-1510993968327-0766450f8a11?crop=entrop'' @
       ''y&cs=tinysrgb&fit=max&fm=jpg&ixid=M3w3Nzg4Nzd8MHwxfHNlYXJjaHwxfHxwb2xpdG'' @
       ''ljcyUyMGdvdmVybm1lbnR8ZW58MXx8fHwxNzU3NjE2NTE5fDA&ixlib=rb-4.1.0&q=80&w='' @
       ''1080&utm_source=figma&utm_medium=referral''),
     category = ''politics'',
     author = ''Anna Williams'',
     publishedAt = ''2024-12-17T11:45:00Z'',
     readTime = ''5 min read'',
     isBookmarked = False \<rparr>"

definition mockContent5 :: string where
  "mockContent5 =
     ''This year's Fashion Week has highlighted a significant shift towards '' @
     ''sustainable and ethical fashion, with designers showcasing innovative '' @
     ''approaches to eco-friendly design.\<newline>\<newline>Prominent local designers have '' @
     ''embraced organic materials, recycled fabrics, and zero-waste production '' @
     ''methods. The collections demonstrate that sustainable fashion can be '' @
     ''both stylish and commercially viable.\<newline>\<newline>Several designers have partnered '' @
     ''with local artisans and community cooperatives, creating employment '' @
     ''opportunities while preserving traditional craftsmanship. These '' @
     ''collaborations have resulted in unique pieces that tell authentic '' @
     ''stories.\<newline>\<newline>The event featured panel discussions on the future of '' @
     ''fashion, addressing topics such as circular economy principles, '' @
     ''consumer behavior changes, and the role of technology in sustainable '' @
     ''production.\<newline>\<newline>Fashion retailers have shown strong interest in the '' @
     ''sustainable collections, with several major brands already placing '' @
     ''orders. Industry experts predict that this trend will continue to grow '' @
     ''as consumers become more environmentally conscious.\<newline>\<newline>The success of '' @
     ''this year's sustainable fashion showcase has positioned local designers '' @
     ''as leaders in the global movement towards responsible fashion.''"

definition mockArticle5 :: Article where
  "mockArticle5 = \<lparr>
     id' = ''5'',
     title = ''Fashion Week Showcases Sustainable Design Trends'',
     excerpt =
       (''Local designers embrace eco-friendly materials and ethical production '' @
       ''methods in their latest collections.''),
     content = mockContent5,
     imageUrl =
       (''https://images.unsplash.com/photo-1610244922760-8bd7d912c4d8?crop=entrop'' @
       ''y&cs=tinysrgb&fit=max&fm=jpg&ixid=M3w3Nzg4Nzd8MHwxfHNlYXJjaHwxfHxsaWZlc3'' @
       ''R5bGUlMjBmYXNoaW9ufGVufDF8fHx8MTc1NzY3MzM1Mnww&ixlib=rb-4.1.0&q=80&w=108'' @
       ''0&utm_source=figma&utm_medium=referral''),
     category = ''lifestyle'',
     author = ''Emma Davis'',
     publishedAt = ''2024-12-16T16:30:00Z'',
     readTime = ''4 min read'',
     isBookmarked = True \<rparr>"

definition mockContent6 :: string where
  "mockContent6 =
     ''The recently launched startup accelerator program at the city's Tech '' @
     ''Innovation Hub is set to support the next generation of entrepreneurs '' @
     ''with comprehensive resources and mentorship opportunities.\<newline>\<newline>The program '' @
     ''offers a 12-week intensive course covering business development, '' @
     ''technology implementation, market research, and funding strategies. '' @
     ''Participants will work directly with industry mentors and successful '' @
     ''entrepreneurs.\<newline>\<newline>Selection criteria emphasize innovation potential, '' @
     ''scalability, and positive social impact. The first cohort includes '' @
     ''startups focused on fintech, healthtech, and sustainable technology '' @
     ''solutions.\<newline>\<newline>Funding opportunities include seed investment, grants, and '' @
     ''connections to venture capital networks. The program also provides '' @
     ''access to state-of-the-art facilities and technical resources.\<newline>\<newline>Program '' @
     ''directors report overwhelming interest, with applications received from '' @
     ''across the region. The diversity of applicants reflects the broad '' @
     ''appeal of entrepreneurship and innovation in the current economic '' @
     ''climate.\<newline>\<newline>Success metrics will include job creation, revenue '' @
     ''generation, and successful funding rounds for participating startups. '' @
     ''The program aims to establish the region as a leading technology and '' @
     ''innovation center.''"

definition mockArticle6 :: Article where
  "mockArticle6 = \<lparr>
     id' = ''6'',
     title = ''Tech Innovation Hub Launches New Startup Accelerator Program'',
     excerpt =
       (''Local entrepreneurs gain access to mentorship, funding, and resources '' @
       ''through the new initiative.''),
     content = mockContent6,
     imageUrl =
       (''https://images.unsplash.com/photo-1568952433726-3896e3881c65?crop=entrop'' @
       ''y&cs=tinysrgb&fit=max&fm=jpg&ixid=M3w3Nzg4Nzd8MHwxfHNlYXJjaHwxfHx0ZWNobm'' @
       ''9sb2d5JTIwaW5ub3ZhdGlvbnxlbnwxfHx8fDE3NTc1NzYyOTd8MA&ixlib=rb-4.1.0&q=80'' @
       ''&w=1080&utm_source=figma&utm_medium=referral''),
     category = ''technology'',
     author = ''James Wilson'',
     publishedAt = ''2024-12-16T10:00:00Z'',
     readTime = ''3 min read'',
     isBookmarked = False \<rparr>"

definition mockArticles :: "Article list" where
  "mockArticles =
     [mockArticle1, mockArticle2, mockArticle3, mockArticle4, mockArticle5, mockArticle6]"


section \<open>The search dialog\<close>

text \<open>
  \<^verbatim>\<open>filteredArticles\<close> of \<^verbatim>\<open>SearchDialog.tsx\<close>: the condition tests the
  trimmed query, the three \<^verbatim>\<open>includes\<close> calls use the query as typed;
  \<^verbatim>\<open>slice(0, 8)\<close> keeps the first eight matches.
\<close>

definition search_match :: "string \<Rightarrow> Article \<Rightarrow> bool" where
  "search_match query article =
     (includes_str (toLowerCase (title article)) (toLowerCase query) \<or>
      includes_str (toLowerCase (excerpt article)) (toLowerCase query) \<or>
      includes_str (toLowerCase (category article)) (toLowerCase query))"

definition search :: "Article list \<Rightarrow> string \<Rightarrow> Article list" where
  "search articles query =
     (if truthy_str (trim query)
      then take 8 (filter (search_match query) articles)
      else [])"

text \<open>The placeholder of the dialog's input field.\<close>

definition search_placeholder :: string where
  "search_placeholder = ''Search articles, categories, authors...''"


section \<open>The list views of the application\<close>

text \<open>
  The derived values \<^verbatim>\<open>App\<close> computes on every render
  (\<^verbatim>\<open>App.tsx\<close>, lines 376 to 387), as functions of the state they read.
  \<^verbatim>\<open>filteredArticles\<close> is the category filter, with \<^verbatim>\<open>"home"\<close> for
  no filter.
\<close>

definition filteredArticles :: "Article list \<Rightarrow> string \<Rightarrow> Article list" where
  "filteredArticles articles activeCategory =
     (if activeCategory = ''home'' then articles
      else filter (\<lambda>article. category article = activeCategory) articles)"

text \<open>
  \<^verbatim>\<open>filteredArticles[0]\<close>: reading index 0 of an empty array gives
  \<^verbatim>\<open>undefined\<close>, the absent value \<^const>\<open>None\<close> here.
\<close>

definition featuredArticle :: "Article list \<Rightarrow> Article option" where
  "featuredArticle filtered = (case filtered of [] \<Rightarrow> None | article # _ \<Rightarrow> Some article)"

text \<open>\<^verbatim>\<open>filteredArticles.slice(1)\<close>.\<close>

definition regularArticles :: "Article list \<Rightarrow> Article list" where
  "regularArticles filtered = drop 1 filtered"

definition savedArticles :: "Article list \<Rightarrow> Article list" where
  "savedArticles articles = filter (\<lambda>article. isBookmarked article) articles"

text \<open>
  The pair of \<^verbatim>\<open>featuredArticle\<close> and \<^verbatim>\<open>regularArticles\<close> that the list
  screen renders.
\<close>

record CategoryView =
  featured :: "Article option"
  regular :: "Article list"

definition composeCategoryView :: "Article list \<Rightarrow> CategoryView" where
  "composeCategoryView filtered =
     \<lparr> featured = featuredArticle filtered, regular = regularArticles filtered \<rparr>"


section \<open>Bookmarks\<close>

text \<open>
  \<^verbatim>\<open>handleBookmark\<close> (\<^verbatim>\<open>App.tsx\<close>, lines 297 to 319). The function passed
  to \<^verbatim>\<open>setArticles\<close> is \<open>toggleBookmark\<close>; the toast is shown only when
  \<^verbatim>\<open>articles.find\<close> finds the article, and its text is chosen by the flag
  before the toggle.
\<close>

definition toggleBookmark :: "string \<Rightarrow> Article list \<Rightarrow> Article list" where
  "toggleBookmark articleId prev =
     map (\<lambda>article.
            if id' article = articleId
            then article\<lparr>isBookmarked := \<not> isBookmarked article\<rparr>
            else article) prev"

record Toast =
  message :: string
  description :: string

definition handleBookmark :: "string \<Rightarrow> Article list \<Rightarrow> Article list \<times> Toast option" where
  "handleBookmark articleId articles =
     (toggleBookmark articleId articles,
      case find (\<lambda>a. id' a = articleId) articles of
        None \<Rightarrow> None
      | Some article \<Rightarrow>
          Some \<lparr> message =
                   (if isBookmarked article then ''Removed from saved articles''
                    else ''Article saved for offline reading''),
                 description =
                   (if isBookmarked article then ''Article removed from your saved collection''
                    else ''You can now read this article when offline'') \<rparr>)"


section \<open>Screens and events\<close>

text \<open>
  The state of \<^verbatim>\<open>App\<close> that decides the screen and the lists: four of its
  nine \<^verbatim>\<open>useState\<close> variables. The other five (the navigation, search and
  settings dialogs, the install prompt and button) are read by no expression
  modelled here.
\<close>

record AppState =
  activeCategory :: string
  selectedArticle :: "Article option"
  articles :: "Article list"
  isOffline :: bool

text \<open>The state of the search dialog beside it: the text typed so far.\<close>

record UiState = AppState +
  query :: string

definition initialState :: AppState where
  "initialState =
     \<lparr> activeCategory = ''home'', selectedArticle = None,
       articles = mockArticles, isOffline = False \<rparr>"

text \<open>
  The three returns of \<^verbatim>\<open>App\<close>, in the order of the source: the offline
  page when \<^verbatim>\<open>isOffline\<close>, else the article view when an article is
  selected, else the list.
\<close>

datatype Screen = LIST | ARTICLE | OFFLINE

definition screen :: "'a AppState_scheme \<Rightarrow> Screen" where
  "screen s =
     (if isOffline s then OFFLINE
      else if selectedArticle s \<noteq> None then ARTICLE
      else LIST)"

text \<open>The \<^verbatim>\<open>savedArticles\<close> property handed to the offline page.\<close>

definition offlineSavedArticles :: "'a AppState_scheme \<Rightarrow> Article list" where
  "offlineSavedArticles s = savedArticles (articles s)"

text \<open>The ids of \<^verbatim>\<open>categories\<close> in the navigation component.\<close>

definition categories :: "string list" where
  "categories =
     [''home'', ''breaking'', ''news'', ''politics'', ''business'', ''sport'',
      ''lifestyle'', ''technology'', ''opinion'']"

text \<open>
  What can happen to the state: the callbacks \<^verbatim>\<open>App\<close> hands to its
  children, and the two listeners on \<^verbatim>\<open>window\<close>.
\<close>

datatype Event =
    WindowOnline
  | WindowOffline
  | CategoryChange string
  | ViewAllArticles
  | ArticleClick Article
  | SearchResultClick string Article
  | ArticleBack
  | Bookmark string
  | Share Article
  | PreviewOffline
  | OfflineRetry
  | OfflineBack

fun step :: "Event \<Rightarrow> AppState \<Rightarrow> AppState" where
  "step WindowOnline s = s\<lparr>isOffline := False\<rparr>"
| "step WindowOffline s = s\<lparr>isOffline := True\<rparr>"
| "step (CategoryChange c) s = s\<lparr>activeCategory := c\<rparr>"
| "step ViewAllArticles s = s\<lparr>activeCategory := ''home''\<rparr>"
| "step (ArticleClick a) s = s\<lparr>selectedArticle := Some a\<rparr>"
| "step (SearchResultClick q a) s = s\<lparr>selectedArticle := Some a\<rparr>"
| "step ArticleBack s = s\<lparr>selectedArticle := None\<rparr>"
| "step (Bookmark i) s = s\<lparr>articles := fst (handleBookmark i (articles s))\<rparr>"
| "step (Share a) s = s"
| "step PreviewOffline s = s\<lparr>isOffline := True\<rparr>"
| "step OfflineRetry s = s\<lparr>isOffline := False\<rparr>"
| "step OfflineBack s = s\<lparr>isOffline := False\<rparr>"

text \<open>
  Which events the rendered screen offers. The window events can come at any
  time. An \<^verbatim>\<open>ArticleCard\<close> calls \<^verbatim>\<open>onClick\<close> with its article when it is
  clicked and \<^verbatim>\<open>onBookmark\<close> with the id of its article from its bookmark
  button; in the featured and default layouts it has a share button as well,
  in the compact layout it has none. The offline page has its back and retry
  buttons and one compact card for each saved article; the article view has
  its back, bookmark and share buttons; the list has the navigation, one
  featured or default card for each filtered article, the offline preview
  button above the regular articles, and the button of the empty state. The
  search dialog belongs to the list and the article screens.
\<close>

fun enabled :: "AppState \<Rightarrow> Event \<Rightarrow> bool" where
  "enabled s WindowOnline = True"
| "enabled s WindowOffline = True"
| "enabled s (CategoryChange c) = (screen s = LIST \<and> c \<in> set categories)"
| "enabled s ViewAllArticles =
     (screen s = LIST \<and> filteredArticles (articles s) (activeCategory s) = [])"
| "enabled s (ArticleClick a) =
     (case screen s of
        OFFLINE \<Rightarrow> a \<in> set (savedArticles (articles s))
      | LIST \<Rightarrow> a \<in> set (filteredArticles (articles s) (activeCategory s))
      | ARTICLE \<Rightarrow> False)"
| "enabled s (SearchResultClick q a) =
     (screen s \<noteq> OFFLINE \<and> a \<in> set (search (articles s) q))"
| "enabled s ArticleBack = (screen s = ARTICLE)"
| "enabled s (Bookmark i) =
     (case screen s of
        OFFLINE \<Rightarrow> i \<in> set (map id' (savedArticles (articles s)))
      | LIST \<Rightarrow> i \<in> set (map id' (filteredArticles (articles s) (activeCategory s)))
      | ARTICLE \<Rightarrow> map_option id' (selectedArticle s) = Some i)"
| "enabled s (Share a) =
     (case screen s of
        OFFLINE \<Rightarrow> False
      | LIST \<Rightarrow> a \<in> set (filteredArticles (articles s) (activeCategory s))
      | ARTICLE \<Rightarrow> selectedArticle s = Some a)"
| "enabled s PreviewOffline =
     (screen s = LIST \<and>
      regularArticles (filteredArticles (articles s) (activeCategory s)) \<noteq> [])"
| "enabled s OfflineRetry = (screen s = OFFLINE)"
| "enabled s OfflineBack = (screen s = OFFLINE)"

inductive reachable :: "AppState \<Rightarrow> bool" where
  reachable_initial: "reachable initialState"
| reachable_step: "reachable s \<Longrightarrow> enabled s e \<Longrightarrow> reachable (step e s)"


section \<open>The contact form function\<close>

text \<open>
  \<^verbatim>\<open>exports.handler\<close> of the contact form function. What
  \<^verbatim>\<open>JSON.parse\<close> returns is a JavaScript value: \<^verbatim>\<open>null\<close>, a boolean, a
  number, a string, an array of values, or an object, whose members are
  given in the order of the text. \<open>JUndefined\<close> is the value of a member
  that is absent. A number is given by the text
  \<^verbatim>\<open>Number.prototype.toString\<close> prints for it, which tells numbers apart but
  for the two zeros, both printed \<^verbatim>\<open>0\<close>; \<^verbatim>\<open>JSON.parse\<close> returns no
  NaN.
\<close>

datatype jsval =
    JUndefined
  | JNull
  | JBool bool
  | JNumber string
  | JString string
  | JArray "jsval list"
  | JObject "(string \<times> jsval) list"

text \<open>
  \<^verbatim>\<open>!v\<close>: the false values are \<^verbatim>\<open>undefined\<close>, \<^verbatim>\<open>null\<close>,
  \<^verbatim>\<open>false\<close>, the zeros and the empty string; arrays and objects are true.
\<close>

fun falsy :: "jsval \<Rightarrow> bool" where
  "falsy JUndefined = True"
| "falsy JNull = True"
| "falsy (JBool b) = (\<not> b)"
| "falsy (JNumber text) = (text = ''0'')"
| "falsy (JString s) = (s = [])"
| "falsy (JArray elements) = False"
| "falsy (JObject members) = False"

text \<open>
  Reading one of the members \<^verbatim>\<open>name\<close>, \<^verbatim>\<open>email\<close>, \<^verbatim>\<open>subject\<close>,
  \<^verbatim>\<open>message\<close>, \<^verbatim>\<open>category\<close> of a parsed value other than
  \<^verbatim>\<open>null\<close>. Of two members of an object with one name
  \<^verbatim>\<open>JSON.parse\<close> keeps the later. No prototype has a member of one of the
  five names, so every value but an object with the member gives
  \<^verbatim>\<open>undefined\<close>.
\<close>

fun getMember :: "jsval \<Rightarrow> string \<Rightarrow> jsval" where
  "getMember (JObject members) key =
     (case map_of (rev members) key of None \<Rightarrow> JUndefined | Some v \<Rightarrow> v)"
| "getMember v key = JUndefined"

text \<open>
  \<^verbatim>\<open>Array.prototype.join\<close> with the comma, on the texts of the elements;
  \<^const>\<open>None\<close> is a thrown TypeError.
\<close>

fun joinStrings :: "string option list \<Rightarrow> string option" where
  "joinStrings [] = Some []"
| "joinStrings [x] = x"
| "joinStrings (x # y # ys) =
     (case x of
        None \<Rightarrow> None
      | Some s \<Rightarrow>
          (case joinStrings (y # ys) of
             None \<Rightarrow> None
           | Some r \<Rightarrow> Some (s @ '','' @ r)))"

text \<open>
  The conversion to a string that \<^verbatim>\<open>RegExp.prototype.test\<close> applies to
  its argument. An array is joined, with the empty text for an element that
  is \<^verbatim>\<open>null\<close>. An object parsed from JSON has no member that can be
  called: with a member named \<^verbatim>\<open>toString\<close> of its own neither that nor
  \<^verbatim>\<open>valueOf\<close> gives a primitive value and the conversion throws a
  TypeError; without one, \<^verbatim>\<open>Object.prototype.toString\<close> answers. The
  depth of arrays in arrays is not bounded here.
\<close>

fun ToString :: "jsval \<Rightarrow> string option" where
  "ToString JUndefined = Some ''undefined''"
| "ToString JNull = Some ''null''"
| "ToString (JBool b) = Some (if b then ''true'' else ''false'')"
| "ToString (JNumber text) = Some text"
| "ToString (JString s) = Some s"
| "ToString (JArray elements) =
     joinStrings
       (map (\<lambda>element.
               if element = JUndefined \<or> element = JNull then Some []
               else ToString element) elements)"
| "ToString (JObject members) =
     (if ''toString'' \<in> set (map fst members) then None else Some ''[object Object]'')"

text \<open>
  \<^verbatim>\<open>/^[^\s@]+@[^\s@]+\.[^\s@]+$/\<close>. The class \<^verbatim>\<open>[^\s@]\<close> is
  \<open>emailChar\<close>. As the class excludes the at sign, the first run of the
  class is all there is before the first at sign; what follows that sign
  must be of the class throughout, with a dot that is neither its first nor
  its last character.
\<close>

definition emailChar :: "char \<Rightarrow> bool" where
  "emailChar c = (\<not> isWhiteSpace c \<and> c \<noteq> CHR ''@'')"

definition emailRegex_test :: "string \<Rightarrow> bool" where
  "emailRegex_test s =
     (takeWhile emailChar s \<noteq> [] \<and>
      (case dropWhile emailChar s of
         [] \<Rightarrow> False
       | c # rest \<Rightarrow>
           c = CHR ''@'' \<and> list_all emailChar rest \<and> CHR ''.'' \<in> set (tl (butlast rest))))"

text \<open>
  The outcome of \<^verbatim>\<open>JSON.parse(event.body)\<close>: it throws a SyntaxError, or
  it returns a value.
\<close>

datatype RequestBody = SyntaxError | Parsed jsval

record HandlerEvent =
  httpMethod :: string
  body :: RequestBody

text \<open>
  The JSON text of a response body, before \<^verbatim>\<open>JSON.stringify\<close>: the members
  of the object in order. The response to \<^verbatim>\<open>OPTIONS\<close> has the empty text.
\<close>

datatype json = JsonString string | JsonBool bool | JsonArray "json list"

datatype ResponseBody = Text string | Json "(string \<times> json) list"

record Response =
  statusCode :: nat
  headers :: "(string \<times> string) list"
  responseBody :: ResponseBody

text \<open>
  The clock the handler reads: \<^verbatim>\<open>Date.now()\<close> in milliseconds and
  \<^verbatim>\<open>new Date().toISOString()\<close>.
\<close>

record Clock =
  now :: nat
  toISOString :: string

text \<open>The decimal digits of a number, as a template literal prints it.\<close>

fun decimal :: "nat \<Rightarrow> string" where
  "decimal n =
     (if n < 10 then [char_of (48 + n)]
      else decimal (n div 10) @ [char_of (48 + n mod 10)])"

definition corsHeaders :: "(string \<times> string) list" where
  "corsHeaders =
     [(''Access-Control-Allow-Origin'', ''*''),
      (''Access-Control-Allow-Headers'', ''Content-Type''),
      (''Access-Control-Allow-Methods'', ''POST, OPTIONS''),
      (''Content-Type'', ''application/json'')]"

text \<open>The answer of the \<^verbatim>\<open>catch\<close> block.\<close>

definition serverError :: Response where
  "serverError =
     \<lparr> statusCode = 500, headers = corsHeaders,
       responseBody = Json
         [(''error'', JsonString ''Unable to process your message''),
          (''message'', JsonString ''Please try again later or contact us directly.'')] \<rparr>"

text \<open>
  The handler. Inside \<^verbatim>\<open>try\<close> three steps can throw: the parse, the
  destructuring of \<^verbatim>\<open>null\<close> (or of \<^verbatim>\<open>undefined\<close>), and the
  conversion of the email to a string in \<^verbatim>\<open>emailRegex.test(email)\<close>; each
  ends in the \<^verbatim>\<open>catch\<close> block. What the handler writes to the console is
  left out.
\<close>

definition handler :: "Clock \<Rightarrow> HandlerEvent \<Rightarrow> Response" where
  "handler clock event =
     (if httpMethod event = ''OPTIONS''
      then \<lparr> statusCode = 200, headers = corsHeaders, responseBody = Text [] \<rparr>
      else if httpMethod event \<noteq> ''POST''
      then \<lparr> statusCode = 405, headers = corsHeaders,
             responseBody = Json
               [(''error'', JsonString ''Method not allowed''),
                (''message'', JsonString ''This endpoint only accepts POST requests'')] \<rparr>
      else
        (case body event of
           SyntaxError \<Rightarrow> serverError
         | Parsed parsed \<Rightarrow>
             if parsed = JNull \<or> parsed = JUndefined then serverError
             else
               (let name = getMember parsed ''name''; email = getMember parsed ''email'';
                    message = getMember parsed ''message''
                in if falsy name \<or> falsy email \<or> falsy message
                   then \<lparr> statusCode = 400, headers = corsHeaders,
                          responseBody = Json
                            [(''error'', JsonString ''Missing required fields''),
                             (''required'',
                              JsonArray [JsonString ''name'', JsonString ''email'',
                                         JsonString ''message''])] \<rparr>
                   else
                     (case ToString email of
                        None \<Rightarrow> serverError
                      | Some text \<Rightarrow>
                          if \<not> emailRegex_test text
                          then \<lparr> statusCode = 400, headers = corsHeaders,
                                 responseBody = Json
                                   [(''error'', JsonString ''Invalid email address'')] \<rparr>
                          else \<lparr> statusCode = 200, headers = corsHeaders,
                                 responseBody = Json
                                   [(''success'', JsonBool True),
                                    (''message'',
                                     JsonString (''Thank you for your message! We'' @
                                                 [CHR 0x27] @ ''ll get back to you soon.'')),
                                    (''submissionId'',
                                     JsonString (''contact_'' @ decimal (now clock))),
                                    (''timestamp'', JsonString (toISOString clock))] \<rparr>))))"


section \<open>Notions the properties are stated with\<close>

text \<open>
  "The query occurs in the field, up to the case of letters": some stretch of
  the field has the same lower case, character by character, as the query.
\<close>

definition ci_substring :: "string \<Rightarrow> string \<Rightarrow> bool" where
  "ci_substring q s =
     (\<exists>ps m ss. s = ps @ m @ ss \<and> map toLowerCase_char m = map toLowerCase_char q)"

definition query_matches :: "string \<Rightarrow> Article \<Rightarrow> bool" where
  "query_matches q a =
     (ci_substring q (title a) \<or> ci_substring q (excerpt a) \<or> ci_substring q (category a))"

text \<open>
  Two articles that differ at most in \<^verbatim>\<open>author\<close> and \<^verbatim>\<open>content\<close>.
\<close>

definition same_but_author_content :: "Article \<Rightarrow> Article \<Rightarrow> bool" where
  "same_but_author_content a b = (b = a\<lparr>author := author b, content := content b\<rparr>)"


section \<open>Facts about the string functions\<close>

lemma includes_str_sublist: "includes_str s q \<longleftrightarrow> sublist q s"
  by (induction s) (simp_all add: sublist_Cons_right)

lemma trim_empty_iff: "trim s = [] \<longleftrightarrow> (\<forall>c \<in> set s. isWhiteSpace c)"
proof
  assume "trim s = []"
  then have "dropWhile isWhiteSpace (rev (dropWhile isWhiteSpace s)) = []"
    by (simp add: trim_def)
  then have "\<forall>c \<in> set (dropWhile isWhiteSpace s). isWhiteSpace c"
    by simp
  moreover have "\<forall>c \<in> set (takeWhile isWhiteSpace s). isWhiteSpace c"
    by (auto dest: set_takeWhileD)
  ultimately have "\<forall>c \<in> set (takeWhile isWhiteSpace s @ dropWhile isWhiteSpace s). isWhiteSpace c"
    unfolding set_append by blast
  then show "\<forall>c \<in> set s. isWhiteSpace c"
    unfolding takeWhile_dropWhile_id .
next
  assume "\<forall>c \<in> set s. isWhiteSpace c"
  then have "dropWhile isWhiteSpace s = []"
    by simp
  then show "trim s = []"
    unfolding trim_def by (simp del: dropWhile_eq_Nil_conv)
qed

lemma char_of_nat_bits:
  "char_of (n::nat) =
     Char (odd n) (odd (n div 2)) (odd (n div 4)) (odd (n div 8))
          (odd (n div 16)) (odd (n div 32)) (odd (n div 64)) (odd (n div 128))"
  by (simp add: char_of_def bit_iff_odd_drop_bit drop_bit_eq_div)

lemma sublist_map_iff:
  "sublist (map f q) (map f s) \<longleftrightarrow> (\<exists>ps m ss. s = ps @ m @ ss \<and> map f m = map f q)"
proof
  assume "sublist (map f q) (map f s)"
  then obtain ps' ss' where "map f s = ps' @ map f q @ ss'"
    by (auto simp: sublist_def)
  then obtain ps r where s: "s = ps @ r" and r: "map f r = map f q @ ss'"
    by (metis map_eq_append_conv)
  from r obtain m ss where "r = m @ ss" and "map f m = map f q"
    by (metis map_eq_append_conv)
  with s show "\<exists>ps m ss. s = ps @ m @ ss \<and> map f m = map f q"
    by blast
next
  assume "\<exists>ps m ss. s = ps @ m @ ss \<and> map f m = map f q"
  then obtain ps m ss where "s = ps @ m @ ss" and "map f m = map f q"
    by blast
  then have "map f s = map f ps @ map f q @ map f ss"
    by simp
  then show "sublist (map f q) (map f s)"
    unfolding sublist_def by blast
qed

lemma includes_toLowerCase:
  "includes_str (toLowerCase s) (toLowerCase q) \<longleftrightarrow> ci_substring q s"
  by (simp add: includes_str_sublist toLowerCase_def sublist_map_iff ci_substring_def)

lemma search_match_iff: "search_match q a \<longleftrightarrow> query_matches q a"
  by (simp add: search_match_def query_matches_def includes_toLowerCase)

lemma trim_sublist: "sublist (trim q) q"
proof -
  have "suffix (dropWhile isWhiteSpace (rev (dropWhile isWhiteSpace q)))
      (rev (dropWhile isWhiteSpace q))"
    by (rule suffix_dropWhile)
  then have "prefix (trim q) (dropWhile isWhiteSpace q)"
    by (simp add: suffix_to_prefix trim_def)
  then have "sublist (trim q) (dropWhile isWhiteSpace q)"
    by (rule prefix_imp_sublist)
  moreover have "sublist (dropWhile isWhiteSpace q) q"
    by (rule suffix_imp_sublist) (rule suffix_dropWhile)
  ultimately show ?thesis
    by (rule sublist_order.order.trans)
qed

lemma ci_substring_trim:
  assumes "ci_substring q s"
  shows "ci_substring (trim q) s"
proof -
  from assms have "sublist (toLowerCase q) (toLowerCase s)"
    by (simp add: includes_toLowerCase [symmetric] includes_str_sublist)
  moreover have "sublist (toLowerCase (trim q)) (toLowerCase q)"
    unfolding toLowerCase_def by (rule map_mono_sublist) (rule trim_sublist)
  ultimately have "sublist (toLowerCase (trim q)) (toLowerCase s)"
    by (rule sublist_order.order.trans [rotated])
  then show ?thesis
    by (simp add: includes_toLowerCase [symmetric] includes_str_sublist)
qed

lemma query_matches_trim:
  assumes "query_matches q a"
  shows "query_matches (trim q) a"
  using assms unfolding query_matches_def by (auto intro: ci_substring_trim)

lemma search_match_same:
  assumes "same_but_author_content a b"
  shows "search_match q a = search_match q b"
proof -
  from assms have "title b = title a" "excerpt b = excerpt a" "category b = category a"
    unfolding same_but_author_content_def
    by (metis Article.select_convs(2) Article.surjective Article.update_convs(4,7),
        metis Article.select_convs(3) Article.surjective Article.update_convs(4,7),
        metis Article.select_convs(6) Article.surjective Article.update_convs(4,7))
  then show ?thesis
    by (simp add: search_match_def)
qed

lemma same_id:
  assumes "same_but_author_content a b"
  shows "id' a = id' b"
  using assms unfolding same_but_author_content_def
  by (metis Article.select_convs(1) Article.surjective Article.update_convs(4,7))

lemma list_all2_filter_same:
  assumes "list_all2 R xs ys" and "\<And>x y. R x y \<Longrightarrow> P x = P y"
  shows "list_all2 R (filter P xs) (filter P ys)"
  using assms by (induction rule: list_all2_induct) auto

lemma list_all2_map_same:
  assumes "list_all2 R xs ys" and "\<And>x y. R x y \<Longrightarrow> f x = f y"
  shows "map f xs = map f ys"
  using assms by (induction rule: list_all2_induct) auto


lemma emailChar_dot: "emailChar CHR ''.''"
  by (simp add: emailChar_def isWhiteSpace_def)

lemma not_emailChar_at: "\<not> emailChar CHR ''@''"
  by (simp add: emailChar_def)

text \<open>
  The test of the email pattern is what the pattern says: a non-empty run of
  the class, an at sign, a non-empty run of the class, a dot, a non-empty run
  of the class, and nothing else.
\<close>

lemma emailRegex_test_iff:
  "emailRegex_test s \<longleftrightarrow>
     (\<exists>a b c. s = a @ ''@'' @ b @ ''.'' @ c \<and> a \<noteq> [] \<and> b \<noteq> [] \<and> c \<noteq> [] \<and>
        list_all emailChar a \<and> list_all emailChar b \<and> list_all emailChar c)"
proof
  assume t: "emailRegex_test s"
  define a where "a = takeWhile emailChar s"
  from t have a: "a \<noteq> []"
    by (simp add: emailRegex_test_def a_def)
  from t obtain rest where d: "dropWhile emailChar s = CHR ''@'' # rest"
    and r: "list_all emailChar rest" and dot: "CHR ''.'' \<in> set (tl (butlast rest))"
    by (auto simp: emailRegex_test_def split: list.splits)
  have s: "s = a @ CHR ''@'' # rest"
    unfolding a_def d [symmetric] by simp
  have la: "list_all emailChar a"
    unfolding a_def list_all_iff by (auto dest: set_takeWhileD)
  from dot obtain u v where uv: "tl (butlast rest) = u @ CHR ''.'' # v"
    by (auto dest: split_list)
  then have "butlast rest \<noteq> []"
    by auto
  then obtain x where bl: "butlast rest = x # u @ CHR ''.'' # v"
    using uv by (cases "butlast rest") auto
  then have "rest \<noteq> []"
    by auto
  then have "rest = butlast rest @ [last rest]"
    by simp
  with bl have rest: "rest = (x # u) @ CHR ''.'' # (v @ [last rest])"
    by simp
  from r have "list_all emailChar (x # u)" "list_all emailChar (v @ [last rest])"
    by (subst (asm) rest, simp)+
  with s rest a la
  show "\<exists>a b c. s = a @ ''@'' @ b @ ''.'' @ c \<and> a \<noteq> [] \<and> b \<noteq> [] \<and> c \<noteq> [] \<and>
        list_all emailChar a \<and> list_all emailChar b \<and> list_all emailChar c"
    by (intro exI [of _ a] exI [of _ "x # u"] exI [of _ "v @ [last rest]"]) simp
next
  assume "\<exists>a b c. s = a @ ''@'' @ b @ ''.'' @ c \<and> a \<noteq> [] \<and> b \<noteq> [] \<and> c \<noteq> [] \<and>
        list_all emailChar a \<and> list_all emailChar b \<and> list_all emailChar c"
  then obtain a b c where s: "s = a @ CHR ''@'' # b @ CHR ''.'' # c"
    and ne: "a \<noteq> []" "b \<noteq> []" "c \<noteq> []"
    and l: "list_all emailChar a" "list_all emailChar b" "list_all emailChar c"
    by auto
  from l(1) have ta: "takeWhile emailChar s = a"
    unfolding s by (simp add: takeWhile_append2 list_all_iff not_emailChar_at)
  from l(1) have da: "dropWhile emailChar s = CHR ''@'' # b @ CHR ''.'' # c"
    unfolding s by (simp add: dropWhile_append2 list_all_iff not_emailChar_at)
  from ne(2) obtain x b' where b: "b = x # b'"
    by (cases b) auto
  from ne(3) have "butlast (b @ CHR ''.'' # c) = b @ CHR ''.'' # butlast c"
    by (simp add: butlast_append)
  then have "CHR ''.'' \<in> set (tl (butlast (b @ CHR ''.'' # c)))"
    by (simp add: b)
  with ta da ne(1) l show "emailRegex_test s"
    by (simp add: emailRegex_test_def emailChar_dot)
qed

lemmas mock_defs = mockArticles_def mockArticle1_def mockArticle2_def mockArticle3_def
  mockArticle4_def mockArticle5_def mockArticle6_def

lemmas string_defs = toLowerCase_def toLowerCase_char_def char_of_nat_bits trim_def
  isWhiteSpace_def truthy_str_def


section \<open>The model on the seed articles\<close>

text \<open>
  The functions computed on \<^const>\<open>mockArticles\<close>: the home category keeps
  all six articles; the category \<^verbatim>\<open>sport\<close> has the third one only; no
  article has the category \<^verbatim>\<open>opinion\<close>, so the view is the empty one;
  \<^verbatim>\<open>rugby\<close> is found in the third article only; after the bookmark of
  the second article is toggled, the fifth is the only saved one (the second
  and the fifth are saved at the start); a blank
  query and a query that occurs nowhere both give no results.
\<close>

lemma seed_home:
  "map id' (filteredArticles mockArticles ''home'') = [''1'', ''2'', ''3'', ''4'', ''5'', ''6'']"
  by (simp add: filteredArticles_def mock_defs)

lemma seed_sport: "filteredArticles mockArticles ''sport'' = [mockArticle3]"
  by (simp add: filteredArticles_def mock_defs)

lemma seed_opinion:
  "composeCategoryView (filteredArticles mockArticles ''opinion'') =
     \<lparr> featured = None, regular = [] \<rparr>"
  by (simp add: filteredArticles_def mock_defs composeCategoryView_def featuredArticle_def
      regularArticles_def)

lemma seed_rugby: "search mockArticles ''rugby'' = [mockArticle3]"
  by (simp add: search_def search_match_def string_defs mock_defs)

lemma mock_bookmarks:
  "\<not> isBookmarked mockArticle1" "isBookmarked mockArticle2" "\<not> isBookmarked mockArticle3"
  "\<not> isBookmarked mockArticle4" "isBookmarked mockArticle5" "\<not> isBookmarked mockArticle6"
  by (simp_all add: mockArticle1_def mockArticle2_def mockArticle3_def
      mockArticle4_def mockArticle5_def mockArticle6_def)

lemma savedArticles_mock: "savedArticles mockArticles = [mockArticle2, mockArticle5]"
  by (simp add: savedArticles_def mockArticles_def mock_bookmarks)

lemma seed_toggle:
  "map id' (savedArticles (fst (handleBookmark ''2'' mockArticles))) = [''5'']"
  by (simp add: handleBookmark_def toggleBookmark_def savedArticles_def mock_defs)

lemma seed_no_results:
  "search mockArticles ''   '' = [] \<and> search mockArticles ''zzz'' = []"
  by (simp add: search_def search_match_def string_defs mock_defs)

lemma seed_submission_id: "''contact_'' @ decimal 1734510600000 = ''contact_1734510600000''"
  by (simp add: char_of_nat_bits)


section \<open>Search: verified properties\<close>

text \<open>
  C7. For every collection and every query that is empty or consists only of
  white space, the search returns the empty sequence.
\<close>

theorem search_blank_query_empty:
  assumes "\<forall>c \<in> set q. isWhiteSpace c"
  shows "search A q = []"
  using assms by (simp add: search_def truthy_str_def trim_empty_iff)

theorem search_blank_query_empty_witness:
  "search mockArticles ''   '' = [] \<and> search mockArticles [] = []"
proof -
  have "\<forall>c \<in> set ''   ''. isWhiteSpace c"
    by (simp add: isWhiteSpace_def)
  then have "search mockArticles ''   '' = []"
    by (rule search_blank_query_empty)
  moreover have "search mockArticles [] = []"
    by (rule search_blank_query_empty) simp
  ultimately show ?thesis
    by (rule conjI)
qed

text \<open>
  C1. For every collection and every query that is not empty after trimming,
  every article the search returns is an article of the collection in which
  the query as typed occurs, up to the case of letters, in the title, the
  excerpt or the category (and so does the trimmed query); there are at most
  eight results; and the results are a prefix of the list of all articles
  matching the query as typed, in the order of the collection (its first
  eight, or all of them when there are fewer).
\<close>

theorem search_sound_capped_prefix:
  assumes "trim q \<noteq> []"
  shows "(\<forall>a \<in> set (search A q).
            a \<in> set A \<and> query_matches q a \<and> query_matches (trim q) a) \<and>
         length (search A q) \<le> 8 \<and>
         prefix (search A q) (filter (query_matches q) A) \<and>
         length (search A q) = min 8 (length (filter (query_matches q) A))"
proof -
  have fm: "filter (search_match q) A = filter (query_matches q) A"
    by (rule filter_cong) (simp_all add: search_match_iff)
  from assms have s: "search A q = take 8 (filter (query_matches q) A)"
    by (simp add: search_def truthy_str_def fm)
  have "\<forall>a \<in> set (search A q).
      a \<in> set A \<and> query_matches q a \<and> query_matches (trim q) a"
  proof
    fix a assume "a \<in> set (search A q)"
    then have "a \<in> set (filter (query_matches q) A)"
      unfolding s by (rule in_set_takeD)
    then show "a \<in> set A \<and> query_matches q a \<and> query_matches (trim q) a"
      by (simp add: query_matches_trim)
  qed
  moreover have "length (search A q) \<le> 8"
    unfolding s by simp
  moreover have "prefix (search A q) (filter (query_matches q) A)"
    unfolding s by (rule take_is_prefix)
  moreover have "length (search A q) = min 8 (length (filter (query_matches q) A))"
    unfolding s by (simp add: min.commute)
  ultimately show ?thesis
    by blast
qed

theorem search_sound_capped_prefix_witness:
  "trim '' Rugby'' \<noteq> [] \<and>
   length (search mockArticles '' Rugby'') \<le> 8 \<and>
   prefix (search mockArticles '' Rugby'') (filter (query_matches '' Rugby'') mockArticles)"
proof -
  have h: "trim '' Rugby'' \<noteq> []"
    by (simp add: trim_def isWhiteSpace_def)
  from search_sound_capped_prefix [OF h, of mockArticles] h show ?thesis
    by blast
qed

text \<open>
  C10. For two collections that differ only in the author and content fields
  of their articles, and every query, the search selects the articles at the
  same positions: the ids of the results are the same, in the same order, and
  the results differ only in those two fields again. The author is not part
  of what is searched, although the placeholder of the input field names
  authors.
\<close>

theorem search_ignores_author_content:
  assumes "list_all2 same_but_author_content A B"
  shows "map id' (search A q) = map id' (search B q) \<and>
         list_all2 same_but_author_content (search A q) (search B q) \<and>
         includes_str search_placeholder ''authors''"
proof -
  from assms have "list_all2 same_but_author_content
      (filter (search_match q) A) (filter (search_match q) B)"
    by (rule list_all2_filter_same) (rule search_match_same)
  then have "list_all2 same_but_author_content
      (take 8 (filter (search_match q) A)) (take 8 (filter (search_match q) B))"
    by (rule list_all2_takeI)
  then have r: "list_all2 same_but_author_content (search A q) (search B q)"
    by (simp add: search_def)
  then have "map id' (search A q) = map id' (search B q)"
    by (rule list_all2_map_same) (rule same_id)
  moreover have "includes_str search_placeholder ''authors''"
    by (simp add: search_placeholder_def)
  ultimately show ?thesis
    using r by blast
qed

theorem search_ignores_author_content_witness:
  "list_all2 same_but_author_content
     [mockArticle3] [mockArticle3\<lparr>author := ''Rugby Reporter'', content := ''rugby''\<rparr>] \<and>
   map id' (search [mockArticle3] ''reporter'') =
   map id' (search [mockArticle3\<lparr>author := ''Rugby Reporter'', content := ''rugby''\<rparr>] ''reporter'')"
proof -
  have h: "list_all2 same_but_author_content
     [mockArticle3] [mockArticle3\<lparr>author := ''Rugby Reporter'', content := ''rugby''\<rparr>]"
    by (simp add: same_but_author_content_def)
  from search_ignores_author_content [OF h, of "''reporter''"] h show ?thesis
    by blast
qed


section \<open>Category filter and list views: verified properties\<close>

lemma toggleBookmark_twice: "toggleBookmark i (toggleBookmark i A) = A"
  by (induction A) (simp_all add: toggleBookmark_def)

lemma toggleBookmark_miss:
  assumes "i \<notin> set (map id' A)"
  shows "toggleBookmark i A = A"
  using assms by (induction A) (auto simp: toggleBookmark_def)

lemma find_miss:
  assumes "i \<notin> set (map id' A)"
  shows "find (\<lambda>a. id' a = i) A = None"
  using assms by (induction A) auto

text \<open>
  C5. For every collection, the category filter with the category
  \<^verbatim>\<open>"home"\<close> returns the collection itself, in the same order and of the
  same length.
\<close>

theorem filteredArticles_home:
  "filteredArticles A ''home'' = A \<and> length (filteredArticles A ''home'') = length A"
  by (simp add: filteredArticles_def)

text \<open>
  C6. For every collection and every category other than \<^verbatim>\<open>"home"\<close>: every
  article of the filtered list has that category, and the list has exactly
  the articles of the collection with it; the list keeps the order of the
  collection (it is the collection with the other positions left out);
  filtering it again by the same category returns it unchanged; and a
  category no article has gives the empty list.
\<close>

theorem filteredArticles_category:
  assumes "c \<noteq> ''home''"
  shows "(\<forall>a \<in> set (filteredArticles A c). category a = c) \<and>
         set (filteredArticles A c) = {a \<in> set A. category a = c} \<and>
         subseq (filteredArticles A c) A \<and>
         filteredArticles A c = nths A {i. i < length A \<and> category (A ! i) = c} \<and>
         filteredArticles (filteredArticles A c) c = filteredArticles A c \<and>
         ((\<forall>a \<in> set A. category a \<noteq> c) \<longrightarrow> filteredArticles A c = [])"
proof -
  from assms have f: "filteredArticles A c = filter (\<lambda>a. category a = c) A" for A
    by (simp add: filteredArticles_def)
  have "\<forall>a \<in> set (filteredArticles A c). category a = c"
    unfolding f by simp
  moreover have "set (filteredArticles A c) = {a \<in> set A. category a = c}"
    unfolding f by simp
  moreover have "subseq (filteredArticles A c) A"
    unfolding f by (rule subseq_filter_left)
  moreover have "filteredArticles A c = nths A {i. i < length A \<and> category (A ! i) = c}"
    unfolding f by (rule filter_eq_nths)
  moreover have "filteredArticles (filteredArticles A c) c = filteredArticles A c"
    unfolding f by simp
  moreover have "(\<forall>a \<in> set A. category a \<noteq> c) \<longrightarrow> filteredArticles A c = []"
    unfolding f by (simp add: filter_empty_conv)
  ultimately show ?thesis
    by blast
qed

theorem filteredArticles_category_witness:
  "''sport'' \<noteq> ''home'' \<and>
   filteredArticles (filteredArticles mockArticles ''sport'') ''sport'' =
     filteredArticles mockArticles ''sport'' \<and>
   subseq (filteredArticles mockArticles ''sport'') mockArticles"
proof -
  have h: "''sport'' \<noteq> ''home''"
    by simp
  from filteredArticles_category [OF h, of mockArticles] h show ?thesis
    by blast
qed

text \<open>
  C2. The view of a filtered list has its first article as the featured one
  and the rest, in order, as the regular ones; for the empty list it has no
  featured article and no regular ones. In particular this holds for lists
  of no, one and three articles.
\<close>

theorem composeCategoryView_cases:
  "composeCategoryView [] = \<lparr> featured = None, regular = [] \<rparr> \<and>
   composeCategoryView [x] = \<lparr> featured = Some x, regular = [] \<rparr> \<and>
   composeCategoryView [x, y, z] = \<lparr> featured = Some x, regular = [y, z] \<rparr> \<and>
   composeCategoryView (x # xs) = \<lparr> featured = Some x, regular = xs \<rparr>"
  by (simp add: composeCategoryView_def featuredArticle_def regularArticles_def)

text \<open>
  C4. For every collection, the saved articles are exactly the articles whose
  bookmark flag is set, in the order of the collection (the collection with
  the other positions left out); and the list handed to the offline page is
  the same whatever the active category and the text in the search dialog
  are.
\<close>

theorem savedArticles_exact:
  "set (savedArticles A) = {a \<in> set A. isBookmarked a} \<and>
   subseq (savedArticles A) A \<and>
   savedArticles A = nths A {i. i < length A \<and> isBookmarked (A ! i)} \<and>
   offlineSavedArticles ((u::UiState)\<lparr>activeCategory := c, query := q\<rparr>) =
     offlineSavedArticles u"
proof -
  have "set (savedArticles A) = {a \<in> set A. isBookmarked a}"
    by (simp add: savedArticles_def)
  moreover have "subseq (savedArticles A) A"
    unfolding savedArticles_def by (rule subseq_filter_left)
  moreover have "savedArticles A = nths A {i. i < length A \<and> isBookmarked (A ! i)}"
    unfolding savedArticles_def by (rule filter_eq_nths)
  moreover have "offlineSavedArticles (u\<lparr>activeCategory := c, query := q\<rparr>) =
      offlineSavedArticles u"
    by (simp add: offlineSavedArticles_def)
  ultimately show ?thesis
    by blast
qed

text \<open>
  C3. For every collection and every id: toggling the bookmark of the id
  twice gives back the collection, so every article has its original flag;
  toggling an id that no article has leaves the collection as it is, and
  shows no message.
\<close>

theorem handleBookmark_twice_and_miss:
  "fst (handleBookmark i (fst (handleBookmark i A))) = A \<and>
   map isBookmarked (fst (handleBookmark i (fst (handleBookmark i A)))) = map isBookmarked A \<and>
   (i \<notin> set (map id' A) \<longrightarrow> handleBookmark i A = (A, None))"
  by (simp add: handleBookmark_def toggleBookmark_twice toggleBookmark_miss find_miss)

theorem handleBookmark_twice_and_miss_witness:
  "''7'' \<notin> set (map id' mockArticles) \<and>
   handleBookmark ''7'' mockArticles = (mockArticles, None) \<and>
   fst (handleBookmark ''2'' (fst (handleBookmark ''2'' mockArticles))) = mockArticles"
proof -
  have h: "''7'' \<notin> set (map id' mockArticles)"
    by (simp add: mockArticles_def mockArticle1_def mockArticle2_def mockArticle3_def
        mockArticle4_def mockArticle5_def mockArticle6_def)
  from handleBookmark_twice_and_miss [of "''7''" mockArticles]
    handleBookmark_twice_and_miss [of "''2''" mockArticles] h
  show ?thesis
    by blast
qed


section \<open>Screens: verified properties\<close>

lemma reachable_preview: "reachable (step PreviewOffline initialState)"
proof (rule reachable_step [OF reachable_initial])
  show "enabled initialState PreviewOffline"
    by (simp add: initialState_def screen_def filteredArticles_def regularArticles_def
        mockArticles_def)
qed

text \<open>
  C8, as the code has it. In every state with the offline flag set, reachable
  or not, the screen is the offline page, whether or not an article is
  selected. The page offers the click on the card of each saved article, and
  of no other; the click records the article as the selected one and changes
  nothing else, so the offline page stays. The page offers its retry and back
  buttons; both clear the flag and change nothing else, and the screen after
  either, as after the window's online event, is the list when no article is
  selected and the article view when one is. Every event the offline page
  offers, and every window event, either keeps the offline page or is one of
  retry, back and the window's online event.
\<close>

theorem offline_screen_transitions:
  assumes "isOffline s"
  shows "screen s = OFFLINE \<and>
         (\<forall>a. screen (step (ArticleClick a) s) = OFFLINE) \<and>
         (\<forall>a. selectedArticle (step (ArticleClick a) s) = Some a \<and>
              articles (step (ArticleClick a) s) = articles s \<and>
              activeCategory (step (ArticleClick a) s) = activeCategory s \<and>
              isOffline (step (ArticleClick a) s)) \<and>
         (\<forall>a. enabled s (ArticleClick a) = (a \<in> set (savedArticles (articles s)))) \<and>
         enabled s OfflineRetry \<and> enabled s OfflineBack \<and> enabled s WindowOnline \<and>
         step OfflineRetry s = s\<lparr>isOffline := False\<rparr> \<and>
         step OfflineBack s = s\<lparr>isOffline := False\<rparr> \<and>
         \<not> isOffline (step OfflineRetry s) \<and>
         \<not> isOffline (step OfflineBack s) \<and>
         screen (step OfflineRetry s) = (if selectedArticle s = None then LIST else ARTICLE) \<and>
         screen (step OfflineBack s) = (if selectedArticle s = None then LIST else ARTICLE) \<and>
         screen (step WindowOnline s) = (if selectedArticle s = None then LIST else ARTICLE) \<and>
         (\<forall>e. enabled s e \<longrightarrow>
              screen (step e s) = OFFLINE \<or>
              (e \<in> {OfflineRetry, OfflineBack, WindowOnline} \<and>
               screen (step e s) = (if selectedArticle s = None then LIST else ARTICLE)))"
proof -
  from assms have off: "screen s = OFFLINE"
    by (simp add: screen_def)
  have "enabled s e \<longrightarrow>
          screen (step e s) = OFFLINE \<or>
          (e \<in> {OfflineRetry, OfflineBack, WindowOnline} \<and>
           screen (step e s) = (if selectedArticle s = None then LIST else ARTICLE))" for e
    using assms off by (cases e) (simp_all add: screen_def)
  moreover from assms have "\<forall>a. screen (step (ArticleClick a) s) = OFFLINE"
    by (simp add: screen_def)
  moreover from assms have "\<forall>a. selectedArticle (step (ArticleClick a) s) = Some a \<and>
      articles (step (ArticleClick a) s) = articles s \<and>
      activeCategory (step (ArticleClick a) s) = activeCategory s \<and>
      isOffline (step (ArticleClick a) s)"
    by simp
  moreover from off
  have "\<forall>a. enabled s (ArticleClick a) = (a \<in> set (savedArticles (articles s)))"
    by simp
  moreover from off
  have "enabled s OfflineRetry" "enabled s OfflineBack" "enabled s WindowOnline"
    by simp_all
  moreover have "step OfflineRetry s = s\<lparr>isOffline := False\<rparr>"
    "step OfflineBack s = s\<lparr>isOffline := False\<rparr>"
    by simp_all
  moreover have "\<not> isOffline (step OfflineRetry s)" "\<not> isOffline (step OfflineBack s)"
    by simp_all
  moreover have
    "screen (step OfflineRetry s) = (if selectedArticle s = None then LIST else ARTICLE)"
    "screen (step OfflineBack s) = (if selectedArticle s = None then LIST else ARTICLE)"
    "screen (step WindowOnline s) = (if selectedArticle s = None then LIST else ARTICLE)"
    by (simp_all add: screen_def)
  ultimately show ?thesis
    using off by blast
qed

theorem offline_screen_transitions_witness:
  "reachable (step PreviewOffline initialState) \<and>
   isOffline (step PreviewOffline initialState) \<and>
   screen (step PreviewOffline initialState) = OFFLINE \<and>
   screen (step OfflineRetry (step PreviewOffline initialState)) = LIST \<and>
   selectedArticle (step (ArticleClick mockArticle2) (step PreviewOffline initialState)) =
     Some mockArticle2 \<and>
   screen (step (ArticleClick mockArticle2) (step PreviewOffline initialState)) = OFFLINE"
proof -
  have h: "isOffline (step PreviewOffline initialState)"
    by simp
  have n: "selectedArticle (step PreviewOffline initialState) = None"
    by (simp add: initialState_def)
  from offline_screen_transitions [OF h] n h reachable_preview show ?thesis
    by simp
qed

text \<open>
  C8, where the code differs: the list is not the only screen that follows
  the offline page. From the first state, a click on the third article among
  the results of the search for \<^verbatim>\<open>rugby\<close> opens the article view; the
  window's offline event then shows the offline page, and there the retry
  button leads back to the article view.
\<close>

theorem offline_retry_reaches_article:
  "reachable (step WindowOffline
     (step (SearchResultClick ''rugby'' mockArticle3) initialState)) \<and>
   screen (step WindowOffline
     (step (SearchResultClick ''rugby'' mockArticle3) initialState)) = OFFLINE \<and>
   enabled (step WindowOffline
     (step (SearchResultClick ''rugby'' mockArticle3) initialState)) OfflineRetry \<and>
   screen (step OfflineRetry (step WindowOffline
     (step (SearchResultClick ''rugby'' mockArticle3) initialState))) = ARTICLE \<and>
   ARTICLE \<noteq> LIST"
proof -
  have "enabled initialState (SearchResultClick ''rugby'' mockArticle3)"
    by (simp add: screen_def initialState_def seed_rugby)
  with reachable_initial
  have "reachable (step (SearchResultClick ''rugby'' mockArticle3) initialState)"
    by (rule reachable_step)
  then have "reachable (step WindowOffline
      (step (SearchResultClick ''rugby'' mockArticle3) initialState))"
    by (rule reachable_step) simp
  then show ?thesis
    by (simp add: screen_def)
qed


section \<open>The contact form function: verified properties\<close>

lemma getMember_absent:
  assumes "key \<notin> set (map fst members)"
  shows "getMember (JObject members) key = JUndefined"
proof -
  from assms have "key \<notin> fst ` set (rev members)"
    by simp
  then have "map_of (rev members) key = None"
    unfolding map_of_eq_None_iff .
  then show ?thesis
    by simp
qed

lemma emailRegex_test_at:
  assumes "emailRegex_test s"
  shows "CHR ''@'' \<in> set s"
  using assms unfolding emailRegex_test_iff by auto

text \<open>
  The words \<^verbatim>\<open>true\<close>, \<^verbatim>\<open>false\<close> and the text of an object have no at
  sign, nor has the text of a number: an email that is a boolean, a number
  or an object without a member \<^verbatim>\<open>toString\<close> is never well-formed.
\<close>

lemma ToString_not_email:
  "\<not> emailRegex_test (if b then ''true'' else ''false'')"
  "\<not> emailRegex_test ''[object Object]''"
  "CHR ''@'' \<notin> set text \<Longrightarrow> \<not> emailRegex_test text"
  by (auto dest: emailRegex_test_at)

text \<open>
  C9, as the code has it. For every request with the method \<^verbatim>\<open>POST\<close>: when
  the body parses to a value other than \<^verbatim>\<open>null\<close>, the response is 400
  with the three required fields named if \<^verbatim>\<open>name\<close>, \<^verbatim>\<open>email\<close> or
  \<^verbatim>\<open>message\<close> is absent or another false value (\<^verbatim>\<open>null\<close>,
  \<^verbatim>\<open>false\<close>, zero, the empty string); else 500 if the conversion of the
  email to a string throws, as it does for an object with a member named
  \<^verbatim>\<open>toString\<close>; else 400 with the invalid email error if the text of the
  email does not match the pattern; else 200 with \<^verbatim>\<open>success: true\<close> and the
  submission id \<^verbatim>\<open>contact_\<close> followed by the time in milliseconds. When
  the body does not parse, or parses to \<^verbatim>\<open>null\<close>, the response is 500.
  A member is absent from an object that has none of the name, and of two
  members of one name the later counts.
\<close>

theorem handler_post:
  assumes "httpMethod event = ''POST''"
  shows "(body event = Parsed parsed \<and> parsed \<noteq> JNull \<and> parsed \<noteq> JUndefined \<longrightarrow>
            (getMember parsed ''name'' = JUndefined \<or> getMember parsed ''email'' = JUndefined \<or>
             getMember parsed ''message'' = JUndefined \<longrightarrow>
               statusCode (handler clock event) = 400 \<and>
               responseBody (handler clock event) = Json
                 [(''error'', JsonString ''Missing required fields''),
                  (''required'',
                   JsonArray [JsonString ''name'', JsonString ''email'',
                              JsonString ''message''])]) \<and>
            (if falsy (getMember parsed ''name'') \<or> falsy (getMember parsed ''email'') \<or>
                falsy (getMember parsed ''message'')
             then statusCode (handler clock event) = 400 \<and>
                  responseBody (handler clock event) = Json
                    [(''error'', JsonString ''Missing required fields''),
                     (''required'',
                      JsonArray [JsonString ''name'', JsonString ''email'',
                                 JsonString ''message''])]
             else
               (case ToString (getMember parsed ''email'') of
                  None \<Rightarrow> statusCode (handler clock event) = 500
                | Some text \<Rightarrow>
                    if \<not> emailRegex_test text
                    then statusCode (handler clock event) = 400 \<and>
                         responseBody (handler clock event) = Json
                           [(''error'', JsonString ''Invalid email address'')]
                    else statusCode (handler clock event) = 200 \<and>
                         responseBody (handler clock event) = Json
                           [(''success'', JsonBool True),
                            (''message'',
                             JsonString (''Thank you for your message! We'' @ [CHR 0x27] @
                                         ''ll get back to you soon.'')),
                            (''submissionId'',
                             JsonString (''contact_'' @ decimal (now clock))),
                            (''timestamp'', JsonString (toISOString clock))]))) \<and>
         (body event = SyntaxError \<or> body event = Parsed JNull \<longrightarrow>
            statusCode (handler clock event) = 500) \<and>
         (\<forall>members. ''toString'' \<in> set (map fst members) \<longrightarrow>
            ToString (JObject members) = None) \<and>
         (\<forall>s. ToString (JString s) = Some s) \<and>
         (\<forall>v. falsy v = (v \<in> {JUndefined, JNull, JBool False, JNumber ''0'', JString []})) \<and>
         (\<forall>members key. key \<notin> set (map fst members) \<longrightarrow>
            getMember (JObject members) key = JUndefined) \<and>
         (\<forall>members key v. getMember (JObject (members @ [(key, v)])) key = v)"
proof -
  let ?name = "getMember parsed ''name''"
  let ?email = "getMember parsed ''email''"
  let ?message = "getMember parsed ''message''"
  let ?missing = "statusCode (handler clock event) = 400 \<and>
      responseBody (handler clock event) = Json
        [(''error'', JsonString ''Missing required fields''),
         (''required'',
          JsonArray [JsonString ''name'', JsonString ''email'', JsonString ''message''])]"
  have failing: "body event = SyntaxError \<or> body event = Parsed JNull \<Longrightarrow>
      statusCode (handler clock event) = 500"
    using assms by (auto simp: handler_def serverError_def)
  have missing: "?missing"
    if "body event = Parsed parsed" "parsed \<noteq> JNull" "parsed \<noteq> JUndefined"
      "falsy ?name \<or> falsy ?email \<or> falsy ?message"
    using assms that by (simp add: handler_def Let_def)
  have absent: "?missing"
    if "body event = Parsed parsed" "parsed \<noteq> JNull" "parsed \<noteq> JUndefined"
      "?name = JUndefined \<or> ?email = JUndefined \<or> ?message = JUndefined"
  proof -
    from that(4) have "falsy ?name \<or> falsy ?email \<or> falsy ?message"
      by auto
    with that(1-3) show ?thesis
      by (rule missing)
  qed
  have present: "case ToString ?email of
        None \<Rightarrow> statusCode (handler clock event) = 500
      | Some text \<Rightarrow>
          if \<not> emailRegex_test text
          then statusCode (handler clock event) = 400 \<and>
               responseBody (handler clock event) = Json
                 [(''error'', JsonString ''Invalid email address'')]
          else statusCode (handler clock event) = 200 \<and>
               responseBody (handler clock event) = Json
                 [(''success'', JsonBool True),
                  (''message'',
                   JsonString (''Thank you for your message! We'' @ [CHR 0x27] @
                               ''ll get back to you soon.'')),
                  (''submissionId'', JsonString (''contact_'' @ decimal (now clock))),
                  (''timestamp'', JsonString (toISOString clock))]"
    if "body event = Parsed parsed" "parsed \<noteq> JNull" "parsed \<noteq> JUndefined"
      "\<not> (falsy ?name \<or> falsy ?email \<or> falsy ?message)"
    using assms that
    by (simp add: handler_def Let_def serverError_def split: option.splits)
  have "\<forall>members. ''toString'' \<in> set (map fst members) \<longrightarrow> ToString (JObject members) = None"
    by simp
  moreover have "\<forall>s. ToString (JString s) = Some s"
    by simp
  moreover have
    "\<forall>v. falsy v = (v \<in> {JUndefined, JNull, JBool False, JNumber ''0'', JString []})"
  proof
    fix v show "falsy v = (v \<in> {JUndefined, JNull, JBool False, JNumber ''0'', JString []})"
      by (cases v) auto
  qed
  moreover have "\<forall>members key. key \<notin> set (map fst members) \<longrightarrow>
      getMember (JObject members) key = JUndefined"
    using getMember_absent by blast
  moreover have "\<forall>members key v. getMember (JObject (members @ [(key, v)])) key = v"
    by simp
  ultimately show ?thesis
    using failing missing absent present by presburger
qed

theorem handler_post_witness:
  "httpMethod \<lparr> httpMethod = ''POST'',
      body = Parsed (JObject
        [(''name'', JString ''Ann''), (''email'', JString ''ann@example.org''),
         (''message'', JString ''Hello'')]) \<rparr> = ''POST'' \<and>
   statusCode (handler \<lparr> now = 1734510600000, toISOString = ''2024-12-18T08:30:00.000Z'' \<rparr>
     \<lparr> httpMethod = ''POST'',
       body = Parsed (JObject
        [(''name'', JString ''Ann''), (''email'', JString ''ann@example.org''),
         (''message'', JString ''Hello'')]) \<rparr>) = 200"
proof -
  let ?parsed = "JObject
        [(''name'', JString ''Ann''), (''email'', JString ''ann@example.org''),
         (''message'', JString ''Hello'')]"
  let ?event = "\<lparr> httpMethod = ''POST'', body = Parsed ?parsed \<rparr>"
  let ?clock = "\<lparr> now = 1734510600000, toISOString = ''2024-12-18T08:30:00.000Z'' \<rparr>"
  have h: "httpMethod ?event = ''POST''"
    by simp
  have b: "body ?event = Parsed ?parsed \<and> ?parsed \<noteq> JNull \<and> ?parsed \<noteq> JUndefined"
    by simp
  have present: "\<not> (falsy (getMember ?parsed ''name'') \<or> falsy (getMember ?parsed ''email'') \<or>
      falsy (getMember ?parsed ''message''))"
    by simp
  have conv: "ToString (getMember ?parsed ''email'') = Some ''ann@example.org''"
    by simp
  have shape: "emailRegex_test ''ann@example.org''"
    by (simp add: emailRegex_test_def emailChar_def isWhiteSpace_def)
  from handler_post [OF h, of ?parsed ?clock]
  have "if falsy (getMember ?parsed ''name'') \<or> falsy (getMember ?parsed ''email'') \<or>
           falsy (getMember ?parsed ''message'')
        then statusCode (handler ?clock ?event) = 400 \<and>
             responseBody (handler ?clock ?event) = Json
               [(''error'', JsonString ''Missing required fields''),
                (''required'',
                 JsonArray [JsonString ''name'', JsonString ''email'',
                            JsonString ''message''])]
        else
          (case ToString (getMember ?parsed ''email'') of
             None \<Rightarrow> statusCode (handler ?clock ?event) = 500
           | Some text \<Rightarrow>
               if \<not> emailRegex_test text
               then statusCode (handler ?clock ?event) = 400 \<and>
                    responseBody (handler ?clock ?event) = Json
                      [(''error'', JsonString ''Invalid email address'')]
               else statusCode (handler ?clock ?event) = 200 \<and>
                    responseBody (handler ?clock ?event) = Json
                      [(''success'', JsonBool True),
                       (''message'',
                        JsonString (''Thank you for your message! We'' @ [CHR 0x27] @
                                    ''ll get back to you soon.'')),
                       (''submissionId'',
                        JsonString (''contact_'' @ decimal (now ?clock))),
                       (''timestamp'', JsonString (toISOString ?clock))])"
    using b by blast
  then have "statusCode (handler ?clock ?event) = 200"
    unfolding if_not_P [OF present] conv option.case using shape by simp
  with h show ?thesis
    by (rule conjI)
qed

text \<open>
  C9, where the code differs: not every request with the method
  \<^verbatim>\<open>POST\<close> gets one of the three answers. A body that is not JSON gets the
  answer 500; a body with all three fields and a well-formed email, whose
  name is the empty string, gets the answer 400; and a body with all three
  fields whose email is the object \<^verbatim>\<open>{"toString": null}\<close> gets the answer
  500.
\<close>

theorem handler_post_other_answers:
  "statusCode (handler \<lparr> now = 1734510600000, toISOString = ''2024-12-18T08:30:00.000Z'' \<rparr>
     \<lparr> httpMethod = ''POST'', body = SyntaxError \<rparr>) = 500 \<and>
   statusCode (handler \<lparr> now = 1734510600000, toISOString = ''2024-12-18T08:30:00.000Z'' \<rparr>
     \<lparr> httpMethod = ''POST'',
       body = Parsed (JObject
        [(''name'', JString []), (''email'', JString ''ann@example.org''),
         (''message'', JString ''Hello'')]) \<rparr>) = 400 \<and>
   emailRegex_test ''ann@example.org'' \<and>
   statusCode (handler \<lparr> now = 1734510600000, toISOString = ''2024-12-18T08:30:00.000Z'' \<rparr>
     \<lparr> httpMethod = ''POST'',
       body = Parsed (JObject
        [(''name'', JString ''Ann''), (''email'', JObject [(''toString'', JNull)]),
         (''message'', JString ''Hello'')]) \<rparr>) = 500"
  by (simp add: handler_def serverError_def emailRegex_test_def emailChar_def isWhiteSpace_def)

text \<open>
  Two more requests: an email given as an array of one well-formed address
  is converted to that address and accepted; an email given as a number is
  not well-formed.
\<close>

lemma handler_array_email:
  "statusCode (handler \<lparr> now = 1734510600000, toISOString = ''2024-12-18T08:30:00.000Z'' \<rparr>
     \<lparr> httpMethod = ''POST'',
       body = Parsed (JObject
        [(''name'', JString ''Ann''), (''email'', JArray [JString ''ann@example.org'']),
         (''message'', JString ''Hello'')]) \<rparr>) = 200"
  by (simp add: handler_def emailRegex_test_def emailChar_def isWhiteSpace_def)

lemma handler_number_email:
  "statusCode (handler \<lparr> now = 1734510600000, toISOString = ''2024-12-18T08:30:00.000Z'' \<rparr>
     \<lparr> httpMethod = ''POST'',
       body = Parsed (JObject
        [(''name'', JString ''Ann''), (''email'', JNumber ''42''),
         (''message'', JString ''Hello'')]) \<rparr>) = 400"
  by (simp add: handler_def emailRegex_test_def emailChar_def isWhiteSpace_def)

end
